theory Spec2Isabelle
  imports Complex_Main "HOL-Library.AList"
begin

section \<open>Values of the program\<close>

text \<open>
  The converter handles loosely typed data: whatever \<^verbatim>\<open>json.loads\<close> returns, and the
  legs it builds from it, which are dictionaries from field names to arbitrary values.

  A text is a \<open>string\<close>; every \<open>char\<close> stands for one code point below 256.
  A float is kept as the exact number it was written as, together with the three special
  values; overflow to an infinity and underflow to zero are modelled, rounding to the nearest
  binary64 number in between is not.
  A dictionary is an association list read with \<open>map_of\<close>, in insertion order.
\<close>

datatype pyfloat = Fin rat | PosInf | NegInf | NaN

datatype pyval =
    PNone
  | PBool bool
  | PInt int
  | PFloat pyfloat
  | PStr string
  | PList "pyval list"
  | PDict "(string \<times> pyval) list"

datatype pyerr = AttributeError | TypeError | ValueError | OverflowError

type_synonym leg = "(string \<times> pyval) list"

datatype slip = Slip (legs: "leg list")

text \<open>Truth value of a Python object, as \<^verbatim>\<open>if x\<close>, \<^verbatim>\<open>not x\<close> and \<^verbatim>\<open>x or y\<close> test it.\<close>

fun truthy :: "pyval \<Rightarrow> bool" where
  "truthy PNone = False"
| "truthy (PBool b) = b"
| "truthy (PInt n) = (n \<noteq> 0)"
| "truthy (PFloat f) = (f \<noteq> Fin 0)"
| "truthy (PStr s) = (s \<noteq> [])"
| "truthy (PList xs) = (xs \<noteq> [])"
| "truthy (PDict kvs) = (kvs \<noteq> [])"

definition py_or :: "pyval \<Rightarrow> pyval \<Rightarrow> pyval" where
  "py_or a b = (if truthy a then a else b)"

text \<open>\<^verbatim>\<open>d.get(k, default)\<close> and \<^verbatim>\<open>d.get(k)\<close> on a dictionary.\<close>

definition dict_get_default :: "(string \<times> pyval) list \<Rightarrow> string \<Rightarrow> pyval \<Rightarrow> pyval" where
  "dict_get_default d k dflt = (case map_of d k of None \<Rightarrow> dflt | Some v \<Rightarrow> v)"

definition dict_get :: "(string \<times> pyval) list \<Rightarrow> string \<Rightarrow> pyval" where
  "dict_get d k = dict_get_default d k PNone"

text \<open>
  A dictionary key must be hashable. Lists and dictionaries are not, and a tuple is hashable
  only if its components are: looking up \<^verbatim>\<open>(from_plat, market_in)\<close> raises \<^verbatim>\<open>TypeError\<close>
  when \<^verbatim>\<open>market_in\<close> is a list or a dictionary.
\<close>

fun hashable :: "pyval \<Rightarrow> bool" where
  "hashable (PList xs) = False"
| "hashable (PDict kvs) = False"
| "hashable v = True"

section \<open>Market translation\<close>

text \<open>
  \<^verbatim>\<open>MARKET_MAP\<close>: keys are pairs of a platform name and a market name. A key whose second
  component is not a string equals none of the six keys.
\<close>

definition MARKET_MAP :: "((string \<times> string) \<times> string) list" where
  "MARKET_MAP =
    [((''sportybet'', ''1X2''), ''Match Result''),
     ((''sportybet'', ''GG''), ''Both Teams To Score''),
     ((''sportybet'', ''O/U 2.5''), ''Over/Under 2.5 Goals''),
     ((''bet9ja'', ''Match Result''), ''1X2''),
     ((''bet9ja'', ''Both Teams To Score''), ''GG''),
     ((''bet9ja'', ''Over/Under 2.5 Goals''), ''O/U 2.5'')]"

text \<open>
  \<^verbatim>\<open>MARKET_MAP.get((from_plat, market_in), market_in)\<close> for a hashable key: the entry of the
  table, or the default \<^verbatim>\<open>market_in\<close>.
\<close>

definition translate_market :: "string \<Rightarrow> pyval \<Rightarrow> pyval" where
  "translate_market from_plat market_in =
    (case market_in of
       PStr m \<Rightarrow> (case map_of MARKET_MAP (from_plat, m) of
                     None \<Rightarrow> market_in
                   | Some t \<Rightarrow> PStr t)
     | _ \<Rightarrow> market_in)"

definition market_lookup :: "string \<Rightarrow> pyval \<Rightarrow> pyerr + pyval" where
  "market_lookup from_plat market_in =
    (if hashable market_in then Inr (translate_market from_plat market_in) else Inl TypeError)"

text \<open>\<^verbatim>\<open>leg.get("market", "")\<close>\<close>

definition leg_market :: "leg \<Rightarrow> pyval" where
  "leg_market l = dict_get_default l ''market'' (PStr [])"

text \<open>One round of the loop of \<^verbatim>\<open>map_markets\<close>: \<^verbatim>\<open>{**leg, "market": mapped}\<close>.\<close>

definition map_market_leg :: "string \<Rightarrow> leg \<Rightarrow> pyerr + leg" where
  "map_market_leg from_plat l =
    (case market_lookup from_plat (leg_market l) of
       Inl e \<Rightarrow> Inl e
     | Inr mapped \<Rightarrow> Inr (AList.update ''market'' mapped l))"

fun map_markets :: "leg list \<Rightarrow> string \<Rightarrow> string \<Rightarrow> pyerr + leg list" where
  "map_markets [] from_plat to_plat = Inr []"
| "map_markets (l # ls) from_plat to_plat =
    (case map_market_leg from_plat l of
       Inl e \<Rightarrow> Inl e
     | Inr l' \<Rightarrow> (case map_markets ls from_plat to_plat of
                    Inl e \<Rightarrow> Inl e
                  | Inr ls' \<Rightarrow> Inr (l' # ls')))"

section \<open>Code synthesis\<close>

text \<open>Decimal digits of a natural number, and the format \<^verbatim>\<open>05d\<close> of an integer.\<close>

definition digit_char :: "nat \<Rightarrow> char" where
  "digit_char d = char_of (48 + d)"

fun dec :: "nat \<Rightarrow> string" where
  "dec n = (if n < 10 then [digit_char n] else dec (n div 10) @ [digit_char (n mod 10)])"

declare dec.simps [simp del]

definition format_05d :: "int \<Rightarrow> string" where
  "format_05d n =
    (if n < 0 then CHR ''-'' # replicate (4 - length (dec (nat (- n)))) CHR ''0'' @ dec (nat (- n))
     else replicate (5 - length (dec (nat n))) CHR ''0'' @ dec (nat n))"

text \<open>
  \<^verbatim>\<open>hash\<close> of a string differs from one interpreter run to the next; it is the
  parameter \<open>h\<close>.
\<close>

definition generate_booking_code_for_demo :: "(string \<Rightarrow> int) \<Rightarrow> string \<Rightarrow> string \<Rightarrow> string" where
  "generate_booking_code_for_demo h to_plat source_code =
    (let prefix = (if to_plat = ''bet9ja'' then ''BJ'' else ''SP'')
     in prefix @ format_05d (\<bar>h source_code\<bar> mod 100000))"

definition is_digit :: "char \<Rightarrow> bool" where
  "is_digit c = (48 \<le> (of_char c :: nat) \<and> (of_char c :: nat) \<le> 57)"


section \<open>Conversion to float\<close>

text \<open>
  \<^verbatim>\<open>float(x)\<close>. For a string: surrounding whitespace is dropped, then the text is an optional
  sign followed by \<^verbatim>\<open>inf\<close>, \<^verbatim>\<open>infinity\<close> or \<^verbatim>\<open>nan\<close> in any case, or by a decimal number
  \<^verbatim>\<open>[digitpart] "." digitpart | digitpart ["."]\<close> with an optional exponent, where a
  digitpart is \<^verbatim>\<open>digit (["_"] digit)*\<close>. Anything else raises \<^verbatim>\<open>ValueError\<close>.
\<close>

definition float_space :: "char \<Rightarrow> bool" where
  "float_space c = ((of_char c :: nat) \<in> {9, 10, 11, 12, 13, 32, 133, 160})"

definition float_strip :: "string \<Rightarrow> string" where
  "float_strip s = rev (dropWhile float_space (rev (dropWhile float_space s)))"

definition ascii_lower :: "char \<Rightarrow> char" where
  "ascii_lower c =
    (if 65 \<le> (of_char c :: nat) \<and> (of_char c :: nat) \<le> 90
     then char_of ((of_char c :: nat) + 32) else c)"

text \<open>The rest of a digitpart, after its first digit: the digits read and the text left.\<close>

fun digitpart_rest :: "string \<Rightarrow> string \<times> string" where
  "digitpart_rest [] = ([], [])"
| "digitpart_rest [c] = (if is_digit c then ([c], []) else ([], [c]))"
| "digitpart_rest (c # d # cs) =
    (if is_digit c then (case digitpart_rest (d # cs) of (ds, r) \<Rightarrow> (c # ds, r))
     else if c = CHR ''_'' \<and> is_digit d then (case digitpart_rest cs of (ds, r) \<Rightarrow> (d # ds, r))
     else ([], c # d # cs))"

fun digitpart :: "string \<Rightarrow> (string \<times> string) option" where
  "digitpart [] = None"
| "digitpart (c # cs) =
    (if is_digit c then (case digitpart_rest cs of (ds, r) \<Rightarrow> Some (c # ds, r)) else None)"

text \<open>A number: the digits before the point, the digits after it, and the text left.\<close>

definition parse_number :: "string \<Rightarrow> (string \<times> string \<times> string) option" where
  "parse_number s =
    (case digitpart s of
       Some (ip, r) \<Rightarrow>
         (case r of
            [] \<Rightarrow> Some (ip, [], r)
          | c # r' \<Rightarrow>
              if c = CHR ''.'' then
                (case digitpart r' of
                   Some (fp, r'') \<Rightarrow> Some (ip, fp, r'')
                 | None \<Rightarrow> Some (ip, [], r'))
              else Some (ip, [], r))
     | None \<Rightarrow>
         (case s of
            [] \<Rightarrow> None
          | c # r' \<Rightarrow>
              if c = CHR ''.'' then
                (case digitpart r' of
                   Some (fp, r'') \<Rightarrow> Some ([], fp, r'')
                 | None \<Rightarrow> None)
              else None))"

definition read_sign :: "string \<Rightarrow> bool \<times> string" where
  "read_sign s =
    (case s of
       [] \<Rightarrow> (False, s)
     | c # cs \<Rightarrow>
         if c = CHR ''-'' then (True, cs) else if c = CHR ''+'' then (False, cs) else (False, s))"

definition digits_value :: "string \<Rightarrow> nat" where
  "digits_value ds = foldl (\<lambda>a c. 10 * a + ((of_char c :: nat) - 48)) 0 ds"

text \<open>The exponent, which must end the text; no exponent counts as 0.\<close>

definition parse_exponent :: "string \<Rightarrow> int option" where
  "parse_exponent r =
    (case r of
       [] \<Rightarrow> Some 0
     | c # r1 \<Rightarrow>
         if c = CHR ''e'' \<or> c = CHR ''E'' then
           (case read_sign r1 of (neg, r2) \<Rightarrow>
              (case digitpart r2 of
                 Some (ds, r3) \<Rightarrow>
                   if r3 = [] then
                     Some (if neg then - int (digits_value ds) else int (digits_value ds))
                   else None
               | None \<Rightarrow> None))
         else None)"

text \<open>
  A number too large for binary64 becomes an infinity: everything from \<open>2^1024 - 2^970\<close> on
  rounds to \<open>2^1024\<close>. A number too small becomes zero: everything up to \<open>2^-1075\<close>, half
  the smallest positive float, rounds to 0. Between the two bounds the number is kept as it is
  written, without rounding to the nearest float.
\<close>

definition float_max_bound :: rat where
  "float_max_bound = 2 ^ 1024 - 2 ^ 970"

definition float_min_bound :: rat where
  "float_min_bound = 1 / 2 ^ 1075"

definition mk_float :: "rat \<Rightarrow> pyfloat" where
  "mk_float q =
    (if float_max_bound \<le> q then PosInf
     else if q \<le> - float_max_bound then NegInf
     else if \<bar>q\<bar> \<le> float_min_bound then Fin 0
     else Fin q)"

definition scale10 :: "rat \<Rightarrow> int \<Rightarrow> rat" where
  "scale10 q e = (if 0 \<le> e then q * 10 ^ nat e else q / 10 ^ nat (- e))"

definition float_of_str :: "string \<Rightarrow> pyfloat option" where
  "float_of_str s =
    (case read_sign (float_strip s) of (neg, u) \<Rightarrow>
       if map ascii_lower u = ''inf'' \<or> map ascii_lower u = ''infinity'' then
         Some (if neg then NegInf else PosInf)
       else if map ascii_lower u = ''nan'' then Some NaN
       else
         (case parse_number u of
            None \<Rightarrow> None
          | Some (ip, fp, r) \<Rightarrow>
              (case parse_exponent r of
                 None \<Rightarrow> None
               | Some e \<Rightarrow>
                   Some (mk_float
                     (scale10 ((if neg then - 1 else 1) * of_nat (digits_value (ip @ fp)))
                        (e - int (length fp)))))))"

fun py_float :: "pyval \<Rightarrow> pyerr + pyfloat" where
  "py_float PNone = Inl TypeError"
| "py_float (PBool b) = Inr (Fin (if b then 1 else 0))"
| "py_float (PInt n) =
    (if float_max_bound \<le> of_int \<bar>n\<bar> then Inl OverflowError else Inr (Fin (of_int n)))"
| "py_float (PFloat f) = Inr f"
| "py_float (PStr s) = (case float_of_str s of None \<Rightarrow> Inl ValueError | Some f \<Rightarrow> Inr f)"
| "py_float (PList xs) = Inl TypeError"
| "py_float (PDict kvs) = Inl TypeError"

section \<open>Payload normalizer\<close>

text \<open>
  The body of the \<^verbatim>\<open>try\<close> statement with its handler:
  \<^verbatim>\<open>odds = float(odds) if odds else None\<close>, and \<^verbatim>\<open>None\<close> on any exception.
\<close>

definition coerce_odds :: "pyval \<Rightarrow> pyval" where
  "coerce_odds v =
    (if truthy v then (case py_float v of Inl e \<Rightarrow> PNone | Inr f \<Rightarrow> PFloat f) else PNone)"

text \<open>The leg built from an item that is a dictionary.\<close>

definition leg_of_dict :: "(string \<times> pyval) list \<Rightarrow> leg" where
  "leg_of_dict it =
    (let home = py_or (py_or (py_or (dict_get it ''home'') (dict_get it ''team1''))
                         (dict_get it ''homeName'')) (PStr []);
         away = py_or (py_or (py_or (dict_get it ''away'') (dict_get it ''team2''))
                         (dict_get it ''awayName'')) (PStr []);
         market = py_or (py_or (py_or (dict_get it ''market'') (dict_get it ''marketName''))
                           (dict_get it ''type'')) (PStr []);
         pick = py_or (py_or (dict_get it ''pick'') (dict_get it ''selection'')) (PStr []);
         odds = py_or (py_or (py_or (dict_get it ''odds'') (dict_get it ''price''))
                         (dict_get it ''odd'')) PNone
     in [(''home'', home), (''away'', away), (''market'', market), (''pick'', pick),
         (''odds'', coerce_odds odds)])"

text \<open>
  An item that is not a dictionary has no method \<^verbatim>\<open>get\<close>: the first \<^verbatim>\<open>it.get("home")\<close>
  raises \<^verbatim>\<open>AttributeError\<close>, which nothing in the normalizer catches.
\<close>

fun leg_of_item :: "pyval \<Rightarrow> pyerr + leg" where
  "leg_of_item (PDict it) = Inr (leg_of_dict it)"
| "leg_of_item v = Inl AttributeError"

fun legs_of_items :: "pyval list \<Rightarrow> pyerr + leg list" where
  "legs_of_items [] = Inr []"
| "legs_of_items (it # its) =
    (case leg_of_item it of
       Inl e \<Rightarrow> Inl e
     | Inr l \<Rightarrow> (case legs_of_items its of Inl e \<Rightarrow> Inl e | Inr ls \<Rightarrow> Inr (l # ls)))"

text \<open>The loop over the candidate keys; \<open>Inr None\<close> is the final \<^verbatim>\<open>return None\<close>.\<close>

fun scan_keys :: "string list \<Rightarrow> (string \<times> pyval) list \<Rightarrow> pyerr + leg list option" where
  "scan_keys [] payload = Inr None"
| "scan_keys (key # keys) payload =
    (let data = dict_get payload key in
     if \<not> truthy data then scan_keys keys payload
     else case data of
        PList items \<Rightarrow>
          (case legs_of_items items of
             Inl e \<Rightarrow> Inl e
           | Inr ls \<Rightarrow> if ls \<noteq> [] then Inr (Some ls) else scan_keys keys payload)
      | _ \<Rightarrow> scan_keys keys payload)"

definition candidate_keys :: "string list" where
  "candidate_keys = [''booking'', ''slip'', ''bets'', ''items'', ''data'']"

definition parse_slip_from_payload :: "(string \<times> pyval) list \<Rightarrow> pyerr + leg list option" where
  "parse_slip_from_payload payload = scan_keys candidate_keys payload"

section \<open>Regular expressions\<close>

text \<open>
  The backtracking matcher of \<^verbatim>\<open>re\<close>, as lists of successes: a piece of a pattern maps the
  text still to be read to the texts left after each way of matching the piece, in the order
  in which the matcher tries them. A greedy repetition tries the longest run first, a lazy one
  the shortest. The first element of the list is what the matcher settles on.
\<close>

type_synonym matcher = "string \<Rightarrow> string list"


fun lit :: "string \<Rightarrow> matcher" where
  "lit [] s = [s]"
| "lit (p # ps) [] = []"
| "lit (p # ps) (c # cs) = (if p = c then lit ps cs else [])"

fun plus_greedy :: "(char \<Rightarrow> bool) \<Rightarrow> matcher" where
  "plus_greedy P [] = []"
| "plus_greedy P (c # cs) = (if P c then plus_greedy P cs @ [cs] else [])"

fun plus_lazy :: "(char \<Rightarrow> bool) \<Rightarrow> matcher" where
  "plus_lazy P [] = []"
| "plus_lazy P (c # cs) = (if P c then cs # plus_lazy P cs else [])"

definition star_greedy :: "(char \<Rightarrow> bool) \<Rightarrow> matcher" where
  "star_greedy P s = plus_greedy P s @ [s]"

definition star_lazy :: "(char \<Rightarrow> bool) \<Rightarrow> matcher" where
  "star_lazy P s = s # plus_lazy P s"



definition andthen :: "matcher \<Rightarrow> matcher \<Rightarrow> matcher" where
  "andthen m1 m2 s = concat (map m2 (m1 s))"

text \<open>
  \<^verbatim>\<open>re.search\<close>: the start positions from left to right, the end of the text included, and at
  each the first way of matching.
\<close>

fun re_search :: "(string \<Rightarrow> 'a list) \<Rightarrow> string \<Rightarrow> 'a option" where
  "re_search m [] = (case m [] of [] \<Rightarrow> None | x # xs \<Rightarrow> Some x)"
| "re_search m (c # cs) = (case m (c # cs) of [] \<Rightarrow> re_search m cs | x # xs \<Rightarrow> Some x)"

text \<open>
  Character classes: \<^verbatim>\<open>\s\<close> is \<^verbatim>\<open>str.isspace\<close>, which \<^verbatim>\<open>str.strip\<close> uses too;
  \<^verbatim>\<open>.\<close> is any character but the line feed, and any character at all under \<^verbatim>\<open>re.S\<close>;
  under \<^verbatim>\<open>re.I\<close> a letter matches in both cases.
\<close>

definition is_space :: "char \<Rightarrow> bool" where
  "is_space c = ((of_char c :: nat) \<in> {9, 10, 11, 12, 13, 28, 29, 30, 31, 32, 133, 160})"


definition any_char :: "char \<Rightarrow> bool" where
  "any_char c = True"




section \<open>Text-pattern leg extractor\<close>
















section \<open>Embedded-payload locator\<close>

text \<open>
  The five patterns, searched under \<^verbatim>\<open>re.S\<close>. The first three are an assignment
  \<^verbatim>\<open>LHS\s*=\s*({.*?});\<close>, the last two an object \<^verbatim>\<open>({"KEY".*?})\<close>; each gives the text
  of its group.
\<close>

definition assignment :: "matcher \<Rightarrow> string \<Rightarrow> string list" where
  "assignment lhs s =
    concat (map (\<lambda>r0.
      concat (map (\<lambda>r1.
        concat (map (\<lambda>r2. map (\<lambda>r3. take (length r0 - length r2) r0) (lit '';'' r2))
          (andthen (star_lazy any_char) (lit ''}'') r1)))
        (lit ''{'' r0)))
      (andthen lhs (andthen (star_greedy is_space) (andthen (lit ''='') (star_greedy is_space))) s))"

definition object_with :: "string \<Rightarrow> string \<Rightarrow> string list" where
  "object_with key s =
    map (\<lambda>r. take (length s - length r) s)
      (andthen (lit (CHR ''{'' # CHR 0x22 # key @ [CHR 0x22]))
         (andthen (star_lazy any_char) (lit ''}'')) s)"

definition patterns :: "(string \<Rightarrow> string list) list" where
  "patterns =
    [assignment (lit ''window.__INITIAL_STATE__''),
     assignment (lit ''window.__DATA__''),
     assignment (andthen (lit ''var'') (andthen (plus_greedy is_space) (lit ''initialState''))),
     object_with ''booking'',
     object_with ''bets'']"

text \<open>
  \<^verbatim>\<open>json.loads\<close> is the parameter \<open>loads\<close>: a function of the text, \<open>None\<close> when it raises.
  The handler of the first failure parses \<^verbatim>\<open>txt = m.group(1)\<close>, the same text, once more.
\<close>

fun try_patterns ::
  "(string \<Rightarrow> pyval option) \<Rightarrow> (string \<Rightarrow> string list) list \<Rightarrow> string \<Rightarrow> pyval option" where
  "try_patterns loads [] html = None"
| "try_patterns loads (pat # pats) html =
    (case re_search pat html of
       None \<Rightarrow> try_patterns loads pats html
     | Some txt \<Rightarrow>
         (case loads txt of
            Some payload \<Rightarrow> Some payload
          | None \<Rightarrow>
              (case loads txt of
                 Some payload \<Rightarrow> Some payload
               | None \<Rightarrow> try_patterns loads pats html)))"

definition extract_json_payload_from_html :: "(string \<Rightarrow> pyval option) \<Rightarrow> string \<Rightarrow> pyval option" where
  "extract_json_payload_from_html loads html = try_patterns loads patterns html"

text \<open>The same loop with a single parse of each captured text.\<close>

fun try_patterns_once ::
  "(string \<Rightarrow> pyval option) \<Rightarrow> (string \<Rightarrow> string list) list \<Rightarrow> string \<Rightarrow> pyval option" where
  "try_patterns_once loads [] html = None"
| "try_patterns_once loads (pat # pats) html =
    (case re_search pat html of
       None \<Rightarrow> try_patterns_once loads pats html
     | Some txt \<Rightarrow>
         (case loads txt of
            Some payload \<Rightarrow> Some payload
          | None \<Rightarrow> try_patterns_once loads pats html))"

section \<open>The convert operation\<close>

datatype platform = Sportybet | Bet9ja

fun platform_name :: "platform \<Rightarrow> string" where
  "platform_name Sportybet = ''sportybet''"
| "platform_name Bet9ja = ''bet9ja''"

record ConvertRequest =
  code :: string
  from_platform :: platform
  to_platform :: platform

record ConvertResult =
  ok :: bool
  message :: string
  converted_code :: "string option"
  preview :: "slip option"

text \<open>
  What \<^verbatim>\<open>convert\<close> does besides returning: it drives the browser through
  \<^verbatim>\<open>fetch_sportybet_slip_playwright\<close> (page fetch and extraction), or it looks the code
  up in the demo table. The model returns these steps, in order, next to the result.
\<close>

datatype event = PageFetch string | DemoLookup string

text \<open>The demo table of the bet9ja branch.\<close>

definition demo :: "(string \<times> slip) list" where
  "demo =
    [(''BJ99999'',
      Slip [[(''home'', PStr ''Barcelona''), (''away'', PStr ''Real Madrid''),
             (''market'', PStr ''O/U 2.5''), (''pick'', PStr ''OVER''),
             (''odds'', PFloat (Fin (195 / 100)))]])]"

text \<open>
  \<open>fetch\<close> is \<^verbatim>\<open>fetch_sportybet_slip_playwright\<close>, which returns a slip or \<^verbatim>\<open>None\<close> and
  catches every exception of the browser; \<open>h\<close> is \<^verbatim>\<open>hash\<close>. A slip is the dictionary
  \<^verbatim>\<open>{"legs": legs}\<close>, never empty, so \<^verbatim>\<open>not slip\<close> holds for \<^verbatim>\<open>None\<close> only.
\<close>

definition convert ::
  "(string \<Rightarrow> slip option) \<Rightarrow> (string \<Rightarrow> int) \<Rightarrow> ConvertRequest
    \<Rightarrow> event list \<times> (pyerr + ConvertResult)" where
  "convert fetch h req =
    (if from_platform req = to_platform req then
       ([], Inr \<lparr>ok = False, message = ''From/To platforms are the same.'',
                 converted_code = None, preview = None\<rparr>)
     else
       let (trace, found) =
             (case from_platform req of
                Sportybet \<Rightarrow> ([PageFetch (code req)], fetch (code req))
              | Bet9ja \<Rightarrow> ([DemoLookup (code req)], map_of demo (code req)))
       in case found of
            None \<Rightarrow>
              (trace, Inr \<lparr>ok = False,
                 message = ''Code not found or could not fetch (try a valid SportyBet code).'',
                 converted_code = None, preview = None\<rparr>)
          | Some s \<Rightarrow>
              (case map_markets (legs s) (platform_name (from_platform req))
                      (platform_name (to_platform req)) of
                 Inl e \<Rightarrow> (trace, Inl e)
               | Inr mapped \<Rightarrow>
                   (trace, Inr \<lparr>ok = True, message = ''Converted (live scrape).'',
                      converted_code =
                        Some (generate_booking_code_for_demo h
                                (platform_name (to_platform req)) (code req)),
                      preview = Some (Slip mapped)\<rparr>)))"

section \<open>Notions used in the statements\<close>

text \<open>
  The first truthy value of a list of probes, or the default: what a chain
  \<^verbatim>\<open>a or b or c or default\<close> is meant to compute.
\<close>

fun first_truthy :: "pyval list \<Rightarrow> pyval \<Rightarrow> pyval" where
  "first_truthy [] dflt = dflt"
| "first_truthy (v # vs) dflt = (if truthy v then v else first_truthy vs dflt)"






text \<open>A page on which the second pattern captures an object with a trailing comma.\<close>

definition page_trailing_comma :: string where
  "page_trailing_comma =
    ''window.__DATA__={'' @ [CHR 0x22] @ ''bets'' @ [CHR 0x22] @ '':[],};''"

definition object_trailing_comma :: string where
  "object_trailing_comma = ''{'' @ [CHR 0x22] @ ''bets'' @ [CHR 0x22] @ '':[],}''"


section \<open>Market translation: proofs\<close>

lemma map_market_leg_hashable:
  "hashable (leg_market l) \<Longrightarrow>
   map_market_leg from_plat l =
     Inr (AList.update ''market'' (translate_market from_plat (leg_market l)) l)"
  by (simp add: map_market_leg_def market_lookup_def)

lemma map_market_leg_unhashable:
  "\<not> hashable (leg_market l) \<Longrightarrow> map_market_leg from_plat l = Inl TypeError"
  by (simp add: map_market_leg_def market_lookup_def)

lemma map_markets_hashable:
  "\<forall>l\<in>set ls. hashable (leg_market l) \<Longrightarrow>
   map_markets ls from_plat to_plat =
     Inr (map (\<lambda>l. AList.update ''market'' (translate_market from_plat (leg_market l)) l) ls)"
  by (induction ls) (simp_all add: map_market_leg_hashable)

lemma map_markets_returns_iff:
  "(\<exists>out. map_markets ls from_plat to_plat = Inr out) \<longleftrightarrow>
   (\<forall>l\<in>set ls. hashable (leg_market l))"
proof (induction ls)
  case Nil
  show ?case by simp
next
  case (Cons l ls)
  show ?case
  proof (cases "hashable (leg_market l)")
    case True
    then show ?thesis
      using Cons by (auto simp: map_market_leg_hashable split: sum.splits)
  next
    case False
    then show ?thesis by (simp add: map_market_leg_unhashable)
  qed
qed

lemma translate_market_str:
  "translate_market from_plat (PStr m) =
     PStr (case map_of MARKET_MAP (from_plat, m) of None \<Rightarrow> m | Some t \<Rightarrow> t)"
  by (simp add: translate_market_def split: option.splits)

lemma map_markets_frame:
  assumes "map_markets ls from_plat to_plat = Inr out"
  shows "length out = length ls \<and>
    (\<forall>i<length ls.
       map_of (out ! i) ''market'' = Some (translate_market from_plat (leg_market (ls ! i)))
     \<and> (\<forall>k. k \<noteq> ''market'' \<longrightarrow> map_of (out ! i) k = map_of (ls ! i) k)
     \<and> (\<forall>m. leg_market (ls ! i) = PStr m \<longrightarrow>
           map_of (out ! i) ''market'' =
             Some (PStr (case map_of MARKET_MAP (from_plat, m) of None \<Rightarrow> m | Some t \<Rightarrow> t))))"
proof -
  have h: "\<forall>l\<in>set ls. hashable (leg_market l)"
    using assms map_markets_returns_iff by blast
  have out: "out = map (\<lambda>l. AList.update ''market'' (translate_market from_plat (leg_market l)) l) ls"
    using map_markets_hashable[OF h, of from_plat to_plat] assms by simp
  show ?thesis unfolding out by (simp add: update_conv' translate_market_str)
qed

lemma unhashable_market_run:
  "parse_slip_from_payload
     [(''bets'', PList [PDict [(''home'', PStr ''A''), (''away'', PStr ''B''),
                               (''market'', PDict [(''name'', PStr ''1X2'')])]])]
   = Inr (Some [[(''home'', PStr ''A''), (''away'', PStr ''B''),
                 (''market'', PDict [(''name'', PStr ''1X2'')]),
                 (''pick'', PStr []), (''odds'', PNone)]])"
  by (simp add: parse_slip_from_payload_def candidate_keys_def dict_get_def
      dict_get_default_def leg_of_dict_def py_or_def coerce_odds_def)

lemma unhashable_market_raises:
  "map_markets [[(''home'', PStr ''A''), (''away'', PStr ''B''),
                 (''market'', PDict [(''name'', PStr ''1X2'')]),
                 (''pick'', PStr []), (''odds'', PNone)]] ''sportybet'' ''bet9ja''
   = Inl TypeError"
  by (simp add: map_market_leg_def market_lookup_def leg_market_def dict_get_default_def)

lemma unhashable_market_convert:
  "convert (\<lambda>c. Some (Slip [[(''home'', PStr ''A''), (''away'', PStr ''B''),
                 (''market'', PDict [(''name'', PStr ''1X2'')]),
                 (''pick'', PStr []), (''odds'', PNone)]])) h
     \<lparr>code = ''SP12345'', from_platform = Sportybet, to_platform = Bet9ja\<rparr>
   = ([PageFetch ''SP12345''], Inl TypeError)"
  by (simp add: convert_def map_market_leg_def market_lookup_def leg_market_def
      dict_get_default_def)

text \<open>
  Claim C6, on the code. The market translator is not total. The normalizer copies the
  market of a payload item as it is; when that market is a dictionary, the leg it builds
  makes \<open>map_markets\<close> raise \<^verbatim>\<open>TypeError\<close>, and convert passes the exception on. The
  translator returns exactly on the slips whose markets are all hashable. Whenever it
  returns, it returns as many legs as it was given, in the same order; each returned leg
  holds under \<open>market\<close> the entry of the table for the source platform and the original
  market, and the original market when the table has no such entry; every other field of
  every leg is as it was.
\<close>

theorem market_translation_unhashable_market:
  "parse_slip_from_payload
     [(''bets'', PList [PDict [(''home'', PStr ''A''), (''away'', PStr ''B''),
                               (''market'', PDict [(''name'', PStr ''1X2'')])]])]
   = Inr (Some [[(''home'', PStr ''A''), (''away'', PStr ''B''),
                 (''market'', PDict [(''name'', PStr ''1X2'')]),
                 (''pick'', PStr []), (''odds'', PNone)]])
   \<and> map_markets [[(''home'', PStr ''A''), (''away'', PStr ''B''),
                 (''market'', PDict [(''name'', PStr ''1X2'')]),
                 (''pick'', PStr []), (''odds'', PNone)]] ''sportybet'' ''bet9ja''
     = Inl TypeError
   \<and> convert (\<lambda>c. Some (Slip [[(''home'', PStr ''A''), (''away'', PStr ''B''),
                 (''market'', PDict [(''name'', PStr ''1X2'')]),
                 (''pick'', PStr []), (''odds'', PNone)]])) h
       \<lparr>code = ''SP12345'', from_platform = Sportybet, to_platform = Bet9ja\<rparr>
     = ([PageFetch ''SP12345''], Inl TypeError)
   \<and> ((\<exists>out. map_markets ls from_plat to_plat = Inr out) \<longleftrightarrow>
        (\<forall>l\<in>set ls. hashable (leg_market l)))
   \<and> (\<forall>out. map_markets ls from_plat to_plat = Inr out \<longrightarrow>
        length out = length ls \<and>
        (\<forall>i<length ls.
           map_of (out ! i) ''market'' = Some (translate_market from_plat (leg_market (ls ! i)))
         \<and> (\<forall>k. k \<noteq> ''market'' \<longrightarrow> map_of (out ! i) k = map_of (ls ! i) k)
         \<and> (\<forall>m. leg_market (ls ! i) = PStr m \<longrightarrow>
               map_of (out ! i) ''market'' =
                 Some (PStr (case map_of MARKET_MAP (from_plat, m) of
                               None \<Rightarrow> m | Some t \<Rightarrow> t)))))"
proof (intro conjI)
  show "\<forall>out. map_markets ls from_plat to_plat = Inr out \<longrightarrow>
        length out = length ls \<and>
        (\<forall>i<length ls.
           map_of (out ! i) ''market'' = Some (translate_market from_plat (leg_market (ls ! i)))
         \<and> (\<forall>k. k \<noteq> ''market'' \<longrightarrow> map_of (out ! i) k = map_of (ls ! i) k)
         \<and> (\<forall>m. leg_market (ls ! i) = PStr m \<longrightarrow>
               map_of (out ! i) ''market'' =
                 Some (PStr (case map_of MARKET_MAP (from_plat, m) of
                               None \<Rightarrow> m | Some t \<Rightarrow> t))))"
    using map_markets_frame by blast
qed (rule unhashable_market_run unhashable_market_raises unhashable_market_convert
      map_markets_returns_iff)+

theorem market_translation_unhashable_market_witness:
  "\<exists>out. map_markets
      [[(''home'', PStr ''A''), (''away'', PStr ''B''), (''market'', PStr ''1X2''),
        (''pick'', PStr ''1''), (''odds'', PNone)]] ''sportybet'' ''bet9ja'' = Inr out
     \<and> length out = 1
     \<and> map_of (out ! 0) ''market'' = Some (PStr ''Match Result'')
     \<and> map_of (out ! 0) ''home'' = Some (PStr ''A'')"
proof -
  let ?l = "[(''home'', PStr ''A''), (''away'', PStr ''B''), (''market'', PStr ''1X2''),
             (''pick'', PStr ''1''), (''odds'', PNone)]"
  note t = market_translation_unhashable_market[of "\<lambda>c. 7" "[?l]" "''sportybet''" "''bet9ja''"]
  have m: "leg_market ?l = PStr ''1X2''"
    by (simp add: leg_market_def dict_get_default_def)
  have h: "\<forall>l\<in>set [?l]. hashable (leg_market l)"
    using m by simp
  from t have iff: "(\<exists>out. map_markets [?l] ''sportybet'' ''bet9ja'' = Inr out) \<longleftrightarrow>
        (\<forall>l\<in>set [?l]. hashable (leg_market l))" by (elim conjE)
  with h obtain out where run: "map_markets [?l] ''sportybet'' ''bet9ja'' = Inr out" by blast
  from t have frame: "\<forall>out. map_markets [?l] ''sportybet'' ''bet9ja'' = Inr out \<longrightarrow>
        length out = length [?l] \<and>
        (\<forall>i<length [?l].
           map_of (out ! i) ''market'' = Some (translate_market ''sportybet'' (leg_market ([?l] ! i)))
         \<and> (\<forall>k. k \<noteq> ''market'' \<longrightarrow> map_of (out ! i) k = map_of ([?l] ! i) k)
         \<and> (\<forall>m. leg_market ([?l] ! i) = PStr m \<longrightarrow>
               map_of (out ! i) ''market'' =
                 Some (PStr (case map_of MARKET_MAP (''sportybet'', m) of
                               None \<Rightarrow> m | Some t \<Rightarrow> t))))" by (elim conjE)
  with run have len: "length out = length [?l]"
    and each: "\<forall>i<length [?l].
           map_of (out ! i) ''market'' = Some (translate_market ''sportybet'' (leg_market ([?l] ! i)))
         \<and> (\<forall>k. k \<noteq> ''market'' \<longrightarrow> map_of (out ! i) k = map_of ([?l] ! i) k)
         \<and> (\<forall>m. leg_market ([?l] ! i) = PStr m \<longrightarrow>
               map_of (out ! i) ''market'' =
                 Some (PStr (case map_of MARKET_MAP (''sportybet'', m) of
                               None \<Rightarrow> m | Some t \<Rightarrow> t)))"
    by blast+
  have z: "(0::nat) < length [?l]" by simp
  note e0 = each[rule_format, OF z]
  have a: "\<forall>m. leg_market ([?l] ! 0) = PStr m \<longrightarrow>
               map_of (out ! 0) ''market'' =
                 Some (PStr (case map_of MARKET_MAP (''sportybet'', m) of
                               None \<Rightarrow> m | Some t \<Rightarrow> t))"
    and b: "\<forall>k. k \<noteq> ''market'' \<longrightarrow> map_of (out ! 0) k = map_of ([?l] ! 0) k"
    using e0 by blast+
  have mk: "map_of (out ! 0) ''market'' = Some (PStr ''Match Result'')"
    using a m by (simp add: MARKET_MAP_def)
  have hm: "map_of (out ! 0) ''home'' = Some (PStr ''A'')"
    using b by simp
  show ?thesis using run len mk hm by (intro exI[of _ out]) simp
qed

section \<open>Code synthesis: proofs\<close>








section \<open>The convert operation: proofs\<close>

text \<open>
  Claim C5. The request with code BJ99999 from bet9ja to sportybet is answered from the demo
  table alone, whatever the page fetch would return: the result has \<open>ok = True\<close> and its
  preview is the slip with the single leg Barcelona, Real Madrid, O/U 2.5, OVER, 1.95.
\<close>

theorem convert_demo_code:
  "convert fetch h \<lparr>code = ''BJ99999'', from_platform = Bet9ja, to_platform = Sportybet\<rparr>
   = ([DemoLookup ''BJ99999''],
      Inr \<lparr>ok = True, message = ''Converted (live scrape).'',
           converted_code = Some (generate_booking_code_for_demo h ''sportybet'' ''BJ99999''),
           preview = Some (Slip [[(''home'', PStr ''Barcelona''), (''away'', PStr ''Real Madrid''),
             (''market'', PStr ''O/U 2.5''), (''pick'', PStr ''OVER''),
             (''odds'', PFloat (Fin (195 / 100)))]])\<rparr>)"
  by (simp add: convert_def demo_def map_market_leg_def market_lookup_def leg_market_def
      translate_market_def dict_get_default_def MARKET_MAP_def)

text \<open>
  Claim C8. When the source and the target platform of a request are the same, convert
  returns a result, not an exception, with \<open>ok = False\<close> and the message that the platforms
  are the same, and it has taken no step before: no page fetch and no demo lookup.
\<close>

theorem convert_same_platform:
  "from_platform req = to_platform req \<Longrightarrow>
   convert fetch h req =
     ([], Inr \<lparr>ok = False, message = ''From/To platforms are the same.'',
               converted_code = None, preview = None\<rparr>)"
  by (simp add: convert_def)

theorem convert_same_platform_witness:
  "convert (\<lambda>c. Some (Slip [])) (\<lambda>c. 7)
     \<lparr>code = ''SP12345'', from_platform = Sportybet, to_platform = Sportybet\<rparr> =
     ([], Inr \<lparr>ok = False, message = ''From/To platforms are the same.'',
               converted_code = None, preview = None\<rparr>)"
  using convert_same_platform[of
      "\<lparr>code = ''SP12345'', from_platform = Sportybet, to_platform = Sportybet\<rparr>"
      "\<lambda>c. Some (Slip [])" "\<lambda>c. 7"]
  by simp

text \<open>
  Claim C9. Every result of convert with \<open>ok = False\<close> has neither a converted code nor a
  preview.
\<close>

theorem convert_failure_fields:
  "convert fetch h req = (tr, Inr res) \<Longrightarrow> \<not> ok res \<Longrightarrow>
   converted_code res = None \<and> preview res = None"
  by (auto simp: convert_def Let_def
      split: if_splits platform.splits option.splits sum.splits prod.splits)

theorem convert_failure_fields_witness:
  "\<exists>res. convert (\<lambda>c. None) (\<lambda>c. 7)
       \<lparr>code = ''SP12345'', from_platform = Sportybet, to_platform = Bet9ja\<rparr>
       = ([PageFetch ''SP12345''], Inr res)
     \<and> \<not> ok res \<and> converted_code res = None \<and> preview res = None"
proof -
  let ?res = "\<lparr>ok = False,
     message = ''Code not found or could not fetch (try a valid SportyBet code).'',
     converted_code = None, preview = None\<rparr>"
  have run: "convert (\<lambda>c. None) (\<lambda>c. 7)
       \<lparr>code = ''SP12345'', from_platform = Sportybet, to_platform = Bet9ja\<rparr>
       = ([PageFetch ''SP12345''], Inr ?res)"
    by (simp add: convert_def)
  have no: "\<not> ok ?res" by simp
  show ?thesis using run no convert_failure_fields[OF run no] by blast
qed


section \<open>Payload normalizer: proofs\<close>

lemma float_of_str_1_5: "float_of_str ''1.5'' = Some (Fin (3 / 2))"
  by (simp add: float_of_str_def float_strip_def float_space_def read_sign_def ascii_lower_def
      parse_number_def is_digit_def parse_exponent_def digits_value_def mk_float_def
      scale10_def float_max_bound_def float_min_bound_def)

lemma float_of_str_2_5: "float_of_str ''2.5'' = Some (Fin (5 / 2))"
  by (simp add: float_of_str_def float_strip_def float_space_def read_sign_def ascii_lower_def
      parse_number_def is_digit_def parse_exponent_def digits_value_def mk_float_def
      scale10_def float_max_bound_def float_min_bound_def)

lemma legs_of_items_length: "legs_of_items its = Inr ls \<Longrightarrow> length ls = length its"
  by (induction its arbitrary: ls) (auto split: sum.splits)

lemma legs_of_items_nonempty: "legs_of_items (it # its) \<noteq> Inr []"
  using legs_of_items_length[of "it # its" "[]"] by auto

lemma scan_keys_skip_absent:
  "\<forall>k\<in>set pre. map_of payload k = None \<Longrightarrow>
   scan_keys (pre @ ks) payload = scan_keys ks payload"
  by (induction pre) (simp_all add: dict_get_def dict_get_default_def)

lemma scan_keys_skip_empty_list:
  "map_of payload key = Some (PList []) \<Longrightarrow>
   scan_keys (key # ks) payload = scan_keys ks payload"
  by (simp add: dict_get_def dict_get_default_def)

lemma scan_keys_not_found_iff:
  "scan_keys ks payload = Inr None \<longleftrightarrow>
   (\<forall>k\<in>set ks. \<forall>items. dict_get payload k = PList items \<longrightarrow> items = [])"
proof (induction ks)
  case Nil
  show ?case by simp
next
  case (Cons k ks)
  show ?case
  proof (cases "dict_get payload k")
    case (PList items)
    show ?thesis
    proof (cases items)
      case Nil
      with PList Cons show ?thesis by simp
    next
      case item: (Cons it its)
      have "legs_of_items items \<noteq> Inr []" using item legs_of_items_nonempty by simp
      with PList Cons show ?thesis by (auto split: sum.splits)
    qed
  qed (use Cons in \<open>auto\<close>)
qed

text \<open>
  Claim C1, as the code has it. When the first candidate key present in the payload holds an
  empty list, the normalizer passes over it and goes on with the candidate keys after it: its
  result is the result of the scan of those keys, and it reports "not found" exactly when
  none of them holds a non-empty list.
\<close>

theorem normalizer_empty_list_falls_through:
  assumes "candidate_keys = pre @ key # post"
    and "\<forall>k\<in>set pre. map_of payload k = None"
    and "map_of payload key = Some (PList [])"
  shows "parse_slip_from_payload payload = scan_keys post payload \<and>
         (parse_slip_from_payload payload = Inr None \<longleftrightarrow>
            (\<forall>k\<in>set post. \<forall>items. dict_get payload k = PList items \<longrightarrow> items = []))"
proof -
  have "parse_slip_from_payload payload = scan_keys (key # post) payload"
    using assms(1,2) scan_keys_skip_absent[of pre payload "key # post"]
    by (simp add: parse_slip_from_payload_def)
  then have eq: "parse_slip_from_payload payload = scan_keys post payload"
    using assms(3) scan_keys_skip_empty_list by simp
  show ?thesis using eq scan_keys_not_found_iff[of post payload] by simp
qed

theorem normalizer_empty_list_falls_through_witness:
  "parse_slip_from_payload
       [(''booking'', PList []),
        (''items'', PList [PDict [(''home'', PStr ''A''), (''away'', PStr ''B'')]])]
     = scan_keys [''slip'', ''bets'', ''items'', ''data'']
       [(''booking'', PList []),
        (''items'', PList [PDict [(''home'', PStr ''A''), (''away'', PStr ''B'')]])]
   \<and> parse_slip_from_payload
       [(''booking'', PList []),
        (''items'', PList [PDict [(''home'', PStr ''A''), (''away'', PStr ''B'')]])]
     \<noteq> Inr None"
  using normalizer_empty_list_falls_through[of "[]" "''booking''"
          "[''slip'', ''bets'', ''items'', ''data'']"
          "[(''booking'', PList []),
            (''items'', PList [PDict [(''home'', PStr ''A''), (''away'', PStr ''B'')]])]"]
  by (simp add: candidate_keys_def dict_get_def dict_get_default_def)

text \<open>
  Claim C1, as the specification states it, fails: with an empty list under \<open>booking\<close> and
  one item under \<open>bets\<close>, the normalizer returns the leg of that item, not "not found".
\<close>

theorem normalizer_empty_list_counterexample:
  "dict_get [(''booking'', PList []),
             (''bets'', PList [PDict [(''home'', PStr ''A''), (''away'', PStr ''B'')]])] ''booking''
     = PList []
   \<and> parse_slip_from_payload
       [(''booking'', PList []),
        (''bets'', PList [PDict [(''home'', PStr ''A''), (''away'', PStr ''B'')]])]
     = Inr (Some [[(''home'', PStr ''A''), (''away'', PStr ''B''), (''market'', PStr []),
                   (''pick'', PStr []), (''odds'', PNone)]])"
  by (simp add: parse_slip_from_payload_def candidate_keys_def dict_get_def dict_get_default_def
      leg_of_dict_def py_or_def coerce_odds_def)

text \<open>
  Claim C4. For the payload with the single item team1 = X, team2 = Y, price = "1.5" under
  \<open>bets\<close>, the normalizer returns exactly one leg: home X, away Y, market and pick empty,
  odds the number 1.5. In general every field of a leg is the first truthy value among its
  aliases, probed in the order home, team1, homeName; away, team2, awayName; market,
  marketName, type; pick, selection; odds, price, odd.
\<close>

theorem normalizer_bets_example:
  "parse_slip_from_payload
     [(''bets'', PList [PDict [(''team1'', PStr ''X''), (''team2'', PStr ''Y''),
                               (''price'', PStr ''1.5'')]])]
   = Inr (Some [[(''home'', PStr ''X''), (''away'', PStr ''Y''), (''market'', PStr []),
                 (''pick'', PStr []), (''odds'', PFloat (Fin (3 / 2)))]])
   \<and> leg_of_item (PDict it) =
       Inr [(''home'', first_truthy (map (dict_get it) [''home'', ''team1'', ''homeName'']) (PStr [])),
            (''away'', first_truthy (map (dict_get it) [''away'', ''team2'', ''awayName'']) (PStr [])),
            (''market'',
               first_truthy (map (dict_get it) [''market'', ''marketName'', ''type'']) (PStr [])),
            (''pick'', first_truthy (map (dict_get it) [''pick'', ''selection'']) (PStr [])),
            (''odds'',
               coerce_odds (first_truthy (map (dict_get it) [''odds'', ''price'', ''odd'']) PNone))]"
proof -
  have 1: "parse_slip_from_payload
     [(''bets'', PList [PDict [(''team1'', PStr ''X''), (''team2'', PStr ''Y''),
                               (''price'', PStr ''1.5'')]])]
   = Inr (Some [[(''home'', PStr ''X''), (''away'', PStr ''Y''), (''market'', PStr []),
                 (''pick'', PStr []), (''odds'', PFloat (Fin (3 / 2)))]])"
    by (simp add: parse_slip_from_payload_def candidate_keys_def dict_get_def
        dict_get_default_def leg_of_dict_def py_or_def coerce_odds_def float_of_str_1_5)
  have 2: "leg_of_item (PDict it) =
       Inr [(''home'', first_truthy (map (dict_get it) [''home'', ''team1'', ''homeName'']) (PStr [])),
            (''away'', first_truthy (map (dict_get it) [''away'', ''team2'', ''awayName'']) (PStr [])),
            (''market'',
               first_truthy (map (dict_get it) [''market'', ''marketName'', ''type'']) (PStr [])),
            (''pick'', first_truthy (map (dict_get it) [''pick'', ''selection'']) (PStr [])),
            (''odds'',
               coerce_odds (first_truthy (map (dict_get it) [''odds'', ''price'', ''odd'']) PNone))]"
    by (simp add: leg_of_dict_def py_or_def)
  show ?thesis using 1 2 by (rule conjI)
qed

text \<open>
  Claim C10, as the code has it. For every item that is a dictionary in which each of the
  aliases odds, price and odd is missing or holds a falsy value, the normalizer builds the leg
  without raising and the leg's odds are absent; the leg is the one of the same item with
  the three aliases removed, so a 0 under every alias present cannot be told from no odds.
\<close>

theorem all_falsy_odds_absent:
  assumes "\<not> truthy (dict_get it ''odds'')" "\<not> truthy (dict_get it ''price'')"
    "\<not> truthy (dict_get it ''odd'')"
  shows "\<exists>l. leg_of_item (PDict it) = Inr l \<and> map_of l ''odds'' = Some PNone
    \<and> leg_of_item
          (PDict (AList.delete ''odds'' (AList.delete ''price'' (AList.delete ''odd'' it))))
        = Inr l"
proof -
  let ?it' = "AList.delete ''odds'' (AList.delete ''price'' (AList.delete ''odd'' it))"
  have other: "dict_get ?it' k = dict_get it k"
    if "k \<noteq> ''odds''" "k \<noteq> ''price''" "k \<noteq> ''odd''" for k
    using that by (simp add: dict_get_def dict_get_default_def delete_conv)
  have gone: "dict_get ?it' ''odds'' = PNone" "dict_get ?it' ''price'' = PNone"
    "dict_get ?it' ''odd'' = PNone"
    by (simp_all add: dict_get_def dict_get_default_def delete_conv)
  have "leg_of_dict ?it' = leg_of_dict it"
    using assms gone by (simp add: leg_of_dict_def other py_or_def coerce_odds_def)
  moreover have "map_of (leg_of_dict it) ''odds'' = Some PNone"
    using assms by (simp add: leg_of_dict_def py_or_def coerce_odds_def)
  ultimately show ?thesis by simp
qed

theorem all_falsy_odds_absent_witness:
  "\<exists>l. leg_of_item (PDict [(''home'', PStr ''A''), (''odds'', PInt 0), (''price'', PStr [])]) = Inr l
       \<and> map_of l ''odds'' = Some PNone
       \<and> leg_of_item (PDict [(''home'', PStr ''A'')]) = Inr l"
  using all_falsy_odds_absent[of "[(''home'', PStr ''A''), (''odds'', PInt 0), (''price'', PStr [])]"]
  by (simp add: dict_get_def dict_get_default_def AList.delete_eq)

text \<open>
  Claim C10, as stated, fails: in the item odds = 0, price = "2.5" the first alias present
  holds the falsy 0, and the leg has the odds 2.5 of the next alias.
\<close>

theorem falsy_first_alias_counterexample:
  "map_of [(''odds'', PInt 0), (''price'', PStr ''2.5'')] ''odds'' = Some (PInt 0)
   \<and> \<not> truthy (PInt 0)
   \<and> leg_of_item (PDict [(''odds'', PInt 0), (''price'', PStr ''2.5'')])
       = Inr [(''home'', PStr []), (''away'', PStr []), (''market'', PStr []),
              (''pick'', PStr []), (''odds'', PFloat (Fin (5 / 2)))]"
  by (simp add: leg_of_dict_def dict_get_def dict_get_default_def py_or_def coerce_odds_def
      float_of_str_2_5)

section \<open>Embedded-payload locator: proofs\<close>

lemma try_patterns_once_eq: "try_patterns loads pats html = try_patterns_once loads pats html"
  by (induction pats) (simp_all split: option.splits)

lemma search_page_trailing_comma:
  "map (\<lambda>pat. re_search pat page_trailing_comma) patterns =
     [None, Some object_trailing_comma, None, None, Some object_trailing_comma]"
  by (simp add: patterns_def page_trailing_comma_def object_trailing_comma_def assignment_def
      object_with_def andthen_def star_lazy_def star_greedy_def any_char_def is_space_def)

text \<open>
  Claim C2, on the code. The second parse is the first one again, on the same text, so it
  never succeeds where the first failed: for every parser and every page the locator returns
  what the loop with one parse per pattern returns. On the page
  \<^verbatim>\<open>window.__DATA__={"bets":[],};\<close> the captured object has a trailing comma, and the
  locator returns what the strict parser makes of that object and nothing else.
\<close>

theorem locator_second_parse_is_the_first:
  "extract_json_payload_from_html loads html = try_patterns_once loads patterns html
   \<and> extract_json_payload_from_html loads page_trailing_comma = loads object_trailing_comma"
proof -
  have 1: "extract_json_payload_from_html loads html = try_patterns_once loads patterns html"
    by (simp add: extract_json_payload_from_html_def try_patterns_once_eq)
  have s: "list_all2 (\<lambda>pat r. re_search pat page_trailing_comma = r) patterns
     [None, Some object_trailing_comma, None, None, Some object_trailing_comma]"
    using search_page_trailing_comma by (simp add: list_all2_conv_all_nth list_eq_iff_nth_eq)
  have 2: "extract_json_payload_from_html loads page_trailing_comma = loads object_trailing_comma"
    using s by (auto simp: extract_json_payload_from_html_def patterns_def split: option.splits)
  show ?thesis using 1 2 by (rule conjI)
qed


section \<open>Text-pattern leg extractor: proofs\<close>





































lemma filter_ne_Nil: "filter (\<lambda>s. \<not> list_all is_space s) ([] # xs) =
    filter (\<lambda>s. \<not> list_all is_space s) xs"
  by simp











end
